theory Spec2Isabelle
  imports Complex_Main "HOL-Library.Sublist" "HOL-Library.Product_Lexorder" "HOL-Library.Multiset"
begin

section \<open>Data of the types module\<close>

text \<open>
  JavaScript numbers that hold counts, scores and instants are modelled as integers; an
  instant is a number of milliseconds, as \<^verbatim>\<open>Date.now()\<close> returns it. Strings are lists of
  8-bit characters.
\<close>

record RedditPost =
  rp_id :: string
  rp_title :: string
  rp_selftext :: string
  rp_author :: string
  rp_subreddit :: string
  rp_score :: int
  rp_ups :: int
  rp_downs :: int
  rp_num_comments :: int
  rp_created_utc :: int
  rp_url :: string
  rp_permalink :: string

record RedditComment =
  rc_id :: string
  rc_body :: string
  rc_author :: string
  rc_score :: int
  rc_created_utc :: int
  rc_link_id :: string

text \<open>
  A thrown \<^verbatim>\<open>Error\<close>: its \<^verbatim>\<open>message\<close> and, for a failed HTTP request,
  \<^verbatim>\<open>error.response?.status\<close>.
\<close>

datatype js_error = JsError (message: string) (status: "nat option")

datatype sort_order = Hot | New | Top | Rising

datatype time_filter = Hour | Day | Week | Month | Year | All

datatype search_sort = ByRelevance | ByHot | ByTop | ByNew | ByComments

fun sort_text :: "sort_order \<Rightarrow> string" where
  "sort_text Hot = ''hot''"
| "sort_text New = ''new''"
| "sort_text Top = ''top''"
| "sort_text Rising = ''rising''"

fun time_text :: "time_filter \<Rightarrow> string" where
  "time_text Hour = ''hour''"
| "time_text Day = ''day''"
| "time_text Week = ''week''"
| "time_text Month = ''month''"
| "time_text Year = ''year''"
| "time_text All = ''all''"

text \<open>The decimal text of a number inside a template string.\<close>

definition digit_char :: "nat \<Rightarrow> char" where
  "digit_char d = ''0123456789'' ! d"

function number_text :: "nat \<Rightarrow> string" where
  "number_text n =
     (if n < 10 then [digit_char n] else number_text (n div 10) @ [digit_char (n mod 10)])"
  by pat_completeness auto
termination
  by (relation "measure (\<lambda>n. n)") auto

section \<open>The remote API as the client sees it\<close>

text \<open>
  What \<^verbatim>\<open>rawPost\<close> carries; \<^verbatim>\<open>selftext\<close> may be absent.
\<close>

record raw_post =
  raw_id :: string
  raw_title :: string
  raw_selftext :: "string option"
  raw_author :: string
  raw_subreddit :: string
  raw_score :: int
  raw_ups :: int
  raw_downs :: int
  raw_num_comments :: int
  raw_created_utc :: int
  raw_url :: string
  raw_permalink :: string

record raw_child =
  child_kind :: string
  child_data :: raw_post

text \<open>
  The two quota headers, already read as numbers when present and non-empty
  (\<^verbatim>\<open>parseFloat\<close>, \<^verbatim>\<open>parseInt\<close>), and \<^verbatim>\<open>response.data.data.children\<close>.
\<close>

record http_response =
  x_ratelimit_remaining :: "rat option"
  x_ratelimit_reset :: "int option"
  listing_children :: "raw_child list"

record auth_response =
  access_token :: string
  expires_in :: int

text \<open>Why the client went to sleep; the source prints a different line before each wait.\<close>

datatype wait_reason = IntervalWait | RemoteQuotaWait | LocalLimitWait | Backoff

text \<open>
  The state of the \<^verbatim>\<open>RedditService\<close> singleton together with what it acts on: the clock,
  the cache, the credentials of the environment and the remote API. The remote API answers
  the \<open>n\<close>-th listing request with \<open>get_reply n\<close> and the \<open>n\<close>-th credential exchange with
  \<open>auth_reply n\<close>. \<open>slept\<close> and \<open>sent\<close> record the waits and the remote requests in the
  order they happen, each request with the instant at which it is issued. The clock
  advances only while the client sleeps, and then by the requested time.
\<close>

record world =
  clock :: int
  slept :: "(wait_reason \<times> int) list"
  sent :: "(int \<times> string) list"
  accessToken :: "string option"
  tokenExpiry :: int
  requestCount :: int
  lastResetTime :: int
  lastRequestTime :: int
  redditRateLimitRemaining :: rat
  redditRateLimitReset :: int
  RATE_LIMIT :: int
  MIN_REQUEST_INTERVAL :: int
  REDDIT_CLIENT_ID :: "string option"
  REDDIT_CLIENT_SECRET :: "string option"
  gets :: nat
  get_reply :: "nat \<Rightarrow> js_error + http_response"
  auths :: nat
  auth_reply :: "nat \<Rightarrow> js_error + auth_response"
  redis_up :: bool
  cache :: "string \<Rightarrow> (RedditPost list \<times> int) option"

text \<open>\<^verbatim>\<open>await new Promise(resolve => setTimeout(resolve, waitTime))\<close>\<close>

definition sleep :: "wait_reason \<Rightarrow> int \<Rightarrow> world \<Rightarrow> world" where
  "sleep why waitTime w =
     w\<lparr>clock := clock w + max 0 waitTime, slept := slept w @ [(why, waitTime)]\<rparr>"

subsection \<open>The cache helpers\<close>

text \<open>
  \<^verbatim>\<open>getCached\<close> and \<^verbatim>\<open>setCache\<close>: an entry written with a time to live of \<open>ttl\<close> seconds is
  readable until that time has passed; when the cache server fails, reading gives
  \<^verbatim>\<open>null\<close> and writing does nothing.
\<close>

definition getCached :: "string \<Rightarrow> world \<Rightarrow> RedditPost list option" where
  "getCached key w =
     (if redis_up w then
        (case cache w key of
           Some (v, expiry) \<Rightarrow> if clock w < expiry then Some v else None
         | None \<Rightarrow> None)
      else None)"

definition setCache :: "string \<Rightarrow> RedditPost list \<Rightarrow> int \<Rightarrow> world \<Rightarrow> world" where
  "setCache key v ttl w =
     (if redis_up w then w\<lparr>cache := (cache w)(key \<mapsto> (v, clock w + ttl * 1000))\<rparr> else w)"

subsection \<open>Authentication\<close>

definition unset :: "string option \<Rightarrow> bool" where
  "unset v = (case v of None \<Rightarrow> True | Some s \<Rightarrow> s = [])"

definition authenticate :: "world \<Rightarrow> (js_error + string) \<times> world" where
  "authenticate w =
     (let now = clock w in
      if \<not> unset (accessToken w) \<and> now < tokenExpiry w then (Inr (the (accessToken w)), w)
      else if unset (REDDIT_CLIENT_ID w) \<or> unset (REDDIT_CLIENT_SECRET w) then
        (Inl (JsError ''Reddit API credentials not configured. Please set REDDIT_CLIENT_ID and REDDIT_CLIENT_SECRET in .env'' None), w)
      else
        (let w1 = w\<lparr>sent := sent w @ [(clock w, ''https://www.reddit.com/api/v1/access_token'')],
                     auths := auths w + 1\<rparr> in
         case auth_reply w (auths w) of
           Inl e \<Rightarrow> (Inl (JsError ''Failed to authenticate with Reddit API'' None), w1)
         | Inr r \<Rightarrow>
             (Inr (access_token r),
              w1\<lparr>accessToken := Some (access_token r),
                 tokenExpiry := now + expires_in r * 1000 - 60000\<rparr>)))"

subsection \<open>Pacing\<close>

definition waitForRequestInterval :: "world \<Rightarrow> world" where
  "waitForRequestInterval w =
     (let now = clock w;
          timeSinceLastRequest = now - lastRequestTime w;
          w1 = (if timeSinceLastRequest < MIN_REQUEST_INTERVAL w
                then sleep IntervalWait (MIN_REQUEST_INTERVAL w - timeSinceLastRequest) w
                else w)
      in w1\<lparr>lastRequestTime := clock w1\<rparr>)"

definition checkRateLimit :: "world \<Rightarrow> world" where
  "checkRateLimit w =
     (let now = clock w;
          timeSinceReset = now - lastResetTime w;
          w1 = (if timeSinceReset \<ge> 60000
                then w\<lparr>requestCount := 0, lastResetTime := now\<rparr>
                else w);
          w2 = (if redditRateLimitRemaining w1 \<le> 1 \<and> redditRateLimitReset w1 > now
                then (sleep RemoteQuotaWait (redditRateLimitReset w1 - now) w1)
                       \<lparr>redditRateLimitRemaining := 60\<rparr>
                else w1);
          w3 = (if requestCount w2 \<ge> RATE_LIMIT w2
                then (let w' = sleep LocalLimitWait (60000 - timeSinceReset) w2
                      in w'\<lparr>requestCount := 0, lastResetTime := clock w'\<rparr>)
                else w2);
          w4 = waitForRequestInterval w3
      in w4\<lparr>requestCount := requestCount w4 + 1\<rparr>)"

definition updateRateLimitFromHeaders :: "http_response \<Rightarrow> world \<Rightarrow> world" where
  "updateRateLimitFromHeaders response w =
     (let w1 = (case x_ratelimit_remaining response of
                  Some r \<Rightarrow> w\<lparr>redditRateLimitRemaining := r\<rparr>
                | None \<Rightarrow> w)
      in case x_ratelimit_reset response of
           Some s \<Rightarrow> w1\<lparr>redditRateLimitReset := s * 1000\<rparr>
         | None \<Rightarrow> w1)"

subsection \<open>Retry on throttling\<close>

text \<open>
  The loop of \<^verbatim>\<open>makeRequestWithRetry\<close>, entered with \<open>attempt \<le> maxRetries\<close>. The number
  of retries is a natural number, so the loop is entered at attempt 0, and it goes round
  again only from an attempt below \<open>maxRetries\<close>: the \<^verbatim>\<open>throw lastError\<close> behind the loop
  is never reached and has no branch here.
\<close>

function retry_from ::
  "(world \<Rightarrow> (js_error + 'a) \<times> world) \<Rightarrow> nat \<Rightarrow> nat \<Rightarrow> world \<Rightarrow> (js_error + 'a) \<times> world" where
  "retry_from requestFn maxRetries attempt w =
     (case requestFn w of
        (Inr v, w1) \<Rightarrow> (Inr v, w1)
      | (Inl error, w1) \<Rightarrow>
          if status error = Some 429 \<and> attempt < maxRetries
          then retry_from requestFn maxRetries (attempt + 1)
                 (sleep Backoff (5000 * 2 ^ attempt) w1)
          else (Inl error, w1))"
  by pat_completeness auto
termination
  by (relation "measure (\<lambda>(requestFn, maxRetries, attempt, w). maxRetries - attempt)") auto

definition makeRequestWithRetry ::
  "(world \<Rightarrow> (js_error + 'a) \<times> world) \<Rightarrow> nat \<Rightarrow> world \<Rightarrow> (js_error + 'a) \<times> world" where
  "makeRequestWithRetry requestFn maxRetries w = retry_from requestFn maxRetries 0 w"

subsection \<open>Fetching and searching\<close>

definition normalizePostData :: "raw_post \<Rightarrow> RedditPost" where
  "normalizePostData rawPost =
     \<lparr>rp_id = raw_id rawPost,
      rp_title = raw_title rawPost,
      rp_selftext = (case raw_selftext rawPost of Some s \<Rightarrow> s | None \<Rightarrow> ''''),
      rp_author = raw_author rawPost,
      rp_subreddit = raw_subreddit rawPost,
      rp_score = raw_score rawPost,
      rp_ups = raw_ups rawPost,
      rp_downs = raw_downs rawPost,
      rp_num_comments = raw_num_comments rawPost,
      rp_created_utc = raw_created_utc rawPost,
      rp_url = raw_url rawPost,
      rp_permalink = raw_permalink rawPost\<rparr>"

text \<open>\<^verbatim>\<open>this.client.get(url, ...)\<close>: the request goes out now and the remote API answers.\<close>

definition client_get :: "string \<Rightarrow> world \<Rightarrow> (js_error + http_response) \<times> world" where
  "client_get url w =
     (get_reply w (gets w), w\<lparr>sent := sent w @ [(clock w, url)], gets := gets w + 1\<rparr>)"

definition listed_posts :: "http_response \<Rightarrow> RedditPost list" where
  "listed_posts response =
     map (\<lambda>child. normalizePostData (child_data child))
       (filter (\<lambda>child. child_kind child = ''t3'') (listing_children response))"

definition posts_cache_key :: "string \<Rightarrow> sort_order \<Rightarrow> time_filter \<Rightarrow> nat \<Rightarrow> string" where
  "posts_cache_key subreddit sortOrder timeFilter limit =
     ''reddit:posts:'' @ subreddit @ '':'' @ sort_text sortOrder @ '':'' @ time_text timeFilter
       @ '':'' @ number_text limit"

text \<open>
  The function that \<^verbatim>\<open>fetchPosts\<close> hands to \<^verbatim>\<open>makeRequestWithRetry\<close>. The token, the
  limit and the time window travel with the request; the remote API of the model answers
  by the order in which the requests arrive, so they do not appear here.
\<close>

definition fetchPosts_request :: "string \<Rightarrow> sort_order \<Rightarrow> string \<Rightarrow> world \<Rightarrow> (js_error + RedditPost list) \<times> world" where
  "fetchPosts_request subreddit sortOrder cacheKey w =
     (let url = ''https://oauth.reddit.com/r/'' @ subreddit @ ''/'' @ sort_text sortOrder in
      case client_get url w of
        (Inl error, w1) \<Rightarrow> (Inl error, w1)
      | (Inr response, w1) \<Rightarrow>
          (let w2 = updateRateLimitFromHeaders response w1;
               posts = listed_posts response;
               w3 = setCache cacheKey posts 600 w2
           in (Inr posts, w3)))"

definition fetchPosts ::
  "string \<Rightarrow> nat \<Rightarrow> time_filter \<Rightarrow> sort_order \<Rightarrow> world \<Rightarrow> (js_error + RedditPost list) \<times> world" where
  "fetchPosts subreddit limit timeFilter sortOrder w =
     (let cacheKey = posts_cache_key subreddit sortOrder timeFilter limit in
      case getCached cacheKey w of
        Some cached \<Rightarrow> (Inr cached, w)
      | None \<Rightarrow>
          (let w1 = checkRateLimit w in
           case authenticate w1 of
             (Inl error, w2) \<Rightarrow> (Inl error, w2)
           | (Inr token, w2) \<Rightarrow>
               makeRequestWithRetry (fetchPosts_request subreddit sortOrder cacheKey) 3 w2))"



subsection \<open>Comment trees\<close>

text \<open>
  A node of the reply tree that the remote API returns: \<^verbatim>\<open>child.kind\<close>, the fields of
  \<^verbatim>\<open>child.data\<close> that the code copies, and \<^verbatim>\<open>child.data.replies.data.children\<close>, which is
  \<open>None\<close> when \<^verbatim>\<open>child.data.replies && child.data.replies.data\<close> is falsy.
\<close>

datatype thing = Thing (kind: string) (payload: RedditComment) (replies: "thing list option")

text \<open>
  The source pushes onto the array \<^verbatim>\<open>comments\<close>; the model returns the extended array.
  \<open>extractChild\<close> is the body of the \<^verbatim>\<open>for\<close> loop.
\<close>

fun extractComments :: "thing list \<Rightarrow> RedditComment list \<Rightarrow> RedditComment list"
  and extractChild :: "thing \<Rightarrow> RedditComment list \<Rightarrow> RedditComment list" where
  "extractComments [] comments = comments"
| "extractComments (child # rest) comments = extractComments rest (extractChild child comments)"
| "extractChild (Thing k d r) comments =
     (if k = ''t1'' then
        (case r of
           Some children \<Rightarrow> extractComments children (comments @ [d])
         | None \<Rightarrow> comments @ [d])
      else comments)"

text \<open>
  The traversal the description speaks of, written on the tree alone: a comment node comes
  first, then the traversals of its replies from left to right; a node of any other kind
  contributes nothing, whatever hangs below it.
\<close>

fun preorder :: "thing \<Rightarrow> RedditComment list" where
  "preorder (Thing k d None) = (if k = ''t1'' then [d] else [])"
| "preorder (Thing k d (Some children)) =
     (if k = ''t1'' then d # concat (map preorder children) else [])"

section \<open>The relational store\<close>

text \<open>
  The tables of the schema with the columns that the statements of the models name. The
  columns \<^verbatim>\<open>created_at\<close> and \<^verbatim>\<open>updated_at\<close>, which the schema fills by default and by
  trigger, are no part of the model. Rows are kept in the order of their insertion.
\<close>

record subreddit_row =
  sr_id :: nat
  sr_name :: string
  sr_description :: "string option"
  sr_subscribers_count :: int

record author_row =
  au_id :: nat
  au_username :: string
  au_link_karma :: int
  au_comment_karma :: int

record post_row =
  p_id :: nat
  p_reddit_id :: string
  p_title :: string
  p_content :: "string option"
  p_subreddit_id :: nat
  p_author_id :: "nat option"
  p_score :: int
  p_upvotes :: int
  p_downvotes :: int
  p_comment_count :: int
  p_created_utc :: int
  p_url :: string
  p_processed :: bool
  p_relevance_score :: int

text \<open>\<^verbatim>\<open>Omit<Post, 'id'>\<close>, the argument of \<^verbatim>\<open>PostModel.create\<close>.\<close>

record Post =
  reddit_id :: string
  title :: string
  content :: "string option"
  subreddit_id :: nat
  author_id :: "nat option"
  score :: int
  upvotes :: int
  downvotes :: int
  comment_count :: int
  created_utc :: int
  url :: string
  processed :: bool
  relevance_score :: "int option"

text \<open>
  The store: its three tables, the next value of each \<^verbatim>\<open>SERIAL\<close> sequence, and what the
  environment does to the coming queries. \<^verbatim>\<open>query\<close> rejects when the environment makes it
  (a lost connection, a violated constraint other than the conflict that the statement
  handles, a malformed text query): the head of \<open>faults\<close> says whether the next query
  rejects, and with which message; an empty list means that no further query rejects.
\<close>

record database =
  subreddits :: "subreddit_row list"
  authors :: "author_row list"
  posts :: "post_row list"
  subreddits_id_seq :: nat
  authors_id_seq :: nat
  posts_id_seq :: nat
  faults :: "string option list"

definition query_fault :: "database \<Rightarrow> js_error option \<times> database" where
  "query_fault db =
     (case faults db of
        [] \<Rightarrow> (None, db)
      | f # fs \<Rightarrow> (map_option (\<lambda>m. JsError m None) f, db\<lparr>faults := fs\<rparr>))"

text \<open>\<^verbatim>\<open>s || null\<close> on an optional string, and \<^verbatim>\<open>n || null\<close> on an optional number.\<close>

definition string_or_null :: "string option \<Rightarrow> string option" where
  "string_or_null v = (case v of Some s \<Rightarrow> if s = [] then None else Some s | None \<Rightarrow> None)"

definition number_or_null :: "nat option \<Rightarrow> nat option" where
  "number_or_null v = (case v of Some n \<Rightarrow> if n = 0 then None else Some n | None \<Rightarrow> None)"

subsection \<open>SubredditModel and AuthorModel\<close>

definition SubredditModel_findOrCreate ::
  "string \<Rightarrow> string option \<Rightarrow> int option \<Rightarrow> database \<Rightarrow> (js_error + nat) \<times> database" where
  "SubredditModel_findOrCreate name description subscribersCount db =
     (case query_fault db of
        (Some error, db1) \<Rightarrow> (Inl error, db1)
      | (None, db1) \<Rightarrow>
          (case filter (\<lambda>r. sr_name r = name) (subreddits db1) of
             r # _ \<Rightarrow> (Inr (sr_id r), db1)
           | [] \<Rightarrow>
               (case query_fault db1 of
                  (Some error, db2) \<Rightarrow> (Inl error, db2)
                | (None, db2) \<Rightarrow>
                    (Inr (subreddits_id_seq db2),
                     db2\<lparr>subreddits := subreddits db2 @
                            [\<lparr>sr_id = subreddits_id_seq db2,
                              sr_name = name,
                              sr_description = string_or_null description,
                              sr_subscribers_count =
                                (case subscribersCount of Some n \<Rightarrow> n | None \<Rightarrow> 0)\<rparr>],
                         subreddits_id_seq := subreddits_id_seq db2 + 1\<rparr>))))"

definition AuthorModel_findOrCreate ::
  "string \<Rightarrow> int \<Rightarrow> int \<Rightarrow> database \<Rightarrow> (js_error + nat) \<times> database" where
  "AuthorModel_findOrCreate username linkKarma commentKarma db =
     (case query_fault db of
        (Some error, db1) \<Rightarrow> (Inl error, db1)
      | (None, db1) \<Rightarrow>
          (case filter (\<lambda>r. au_username r = username) (authors db1) of
             r # _ \<Rightarrow>
               (case query_fault db1 of
                  (Some error, db2) \<Rightarrow> (Inl error, db2)
                | (None, db2) \<Rightarrow>
                    (Inr (au_id r),
                     db2\<lparr>authors :=
                           map (\<lambda>a. if au_username a = username
                                     then a\<lparr>au_link_karma := linkKarma,
                                            au_comment_karma := commentKarma\<rparr>
                                     else a)
                             (authors db2)\<rparr>))
           | [] \<Rightarrow>
               (case query_fault db1 of
                  (Some error, db2) \<Rightarrow> (Inl error, db2)
                | (None, db2) \<Rightarrow>
                    (Inr (authors_id_seq db2),
                     db2\<lparr>authors := authors db2 @
                            [\<lparr>au_id = authors_id_seq db2,
                              au_username = username,
                              au_link_karma = linkKarma,
                              au_comment_karma = commentKarma\<rparr>],
                         authors_id_seq := authors_id_seq db2 + 1\<rparr>))))"

subsection \<open>PostModel.create\<close>

text \<open>
  One statement, hence one query. Without a row of the same \<^verbatim>\<open>reddit_id\<close> the row is
  inserted, \<^verbatim>\<open>processed\<close> and \<^verbatim>\<open>relevance_score\<close> taking their defaults; with one, the
  \<^verbatim>\<open>DO UPDATE SET\<close> clause changes that row. The sequence hands out its value before the
  conflict is seen, so it advances on both paths.
\<close>

definition PostModel_create :: "Post \<Rightarrow> database \<Rightarrow> (js_error + nat) \<times> database" where
  "PostModel_create post db =
     (case query_fault db of
        (Some error, db1) \<Rightarrow> (Inl error, db1)
      | (None, db1) \<Rightarrow>
          (case filter (\<lambda>r. p_reddit_id r = reddit_id post) (posts db1) of
             r # _ \<Rightarrow>
               (Inr (p_id r),
                db1\<lparr>posts :=
                      map (\<lambda>p. if p_reddit_id p = reddit_id post
                                then p\<lparr>p_score := score post,
                                       p_upvotes := upvotes post,
                                       p_downvotes := downvotes post,
                                       p_comment_count := comment_count post\<rparr>
                                else p)
                        (posts db1),
                    posts_id_seq := posts_id_seq db1 + 1\<rparr>)
           | [] \<Rightarrow>
               (Inr (posts_id_seq db1),
                db1\<lparr>posts := posts db1 @
                       [\<lparr>p_id = posts_id_seq db1,
                         p_reddit_id = reddit_id post,
                         p_title = title post,
                         p_content = string_or_null (content post),
                         p_subreddit_id = subreddit_id post,
                         p_author_id = number_or_null (author_id post),
                         p_score = score post,
                         p_upvotes = upvotes post,
                         p_downvotes = downvotes post,
                         p_comment_count = comment_count post,
                         p_created_utc = created_utc post,
                         p_url = url post,
                         p_processed = False,
                         p_relevance_score = 0\<rparr>],
                    posts_id_seq := posts_id_seq db1 + 1\<rparr>)))"

subsection \<open>PostModel.search\<close>













subsection \<open>PostModel.updateRelevanceScore\<close>

text \<open>
  \<^verbatim>\<open>toLowerCase\<close> on the letters of the 7-bit alphabet; other characters stay.
\<close>

definition toLowerChar :: "char \<Rightarrow> char" where
  "toLowerChar c =
     (case map_of (zip ''ABCDEFGHIJKLMNOPQRSTUVWXYZ'' ''abcdefghijklmnopqrstuvwxyz'') c of
        Some l \<Rightarrow> l
      | None \<Rightarrow> c)"

definition toLowerCase :: "string \<Rightarrow> string" where
  "toLowerCase s = map toLowerChar s"

text \<open>
  \<^verbatim>\<open>new RegExp(keyword.toLowerCase(), 'g')\<close> compiles the keyword as a pattern. The model
  covers the patterns that are sequences of ordinary characters and dots: an ordinary
  character matches itself, a dot matches any character but a line terminator. For a
  keyword with any other character of the pattern syntax the model gives no answer
  (\<open>None\<close>).
\<close>

datatype regex_atom = Lit char | AnyChar

definition syntax_characters :: "char list" where
  "syntax_characters =
     [CHR ''^'', CHR ''$'', CHR 0x5C, CHR ''.'', CHR ''*'', CHR ''+'', CHR ''?'', CHR ''('',
      CHR '')'', CHR ''['', CHR '']'', CHR ''{'', CHR ''}'', CHR ''|'']"

definition compile_atom :: "char \<Rightarrow> regex_atom option" where
  "compile_atom c =
     (if c = CHR ''.'' then Some AnyChar
      else if c \<in> set syntax_characters then None
      else Some (Lit c))"

definition new_RegExp :: "string \<Rightarrow> regex_atom list option" where
  "new_RegExp pattern = those (map compile_atom pattern)"

fun atom_matches :: "regex_atom \<Rightarrow> char \<Rightarrow> bool" where
  "atom_matches (Lit c) x = (x = c)"
| "atom_matches AnyChar x = (x \<noteq> CHR 0x0A \<and> x \<noteq> CHR 0x0D)"

fun matches_here :: "regex_atom list \<Rightarrow> string \<Rightarrow> bool" where
  "matches_here [] s = True"
| "matches_here (a # as) [] = False"
| "matches_here (a # as) (x # xs) = (atom_matches a x \<and> matches_here as xs)"

text \<open>
  The length of \<^verbatim>\<open>s.match(regex)\<close> with the global flag (0 for \<^verbatim>\<open>null\<close>): the matches are
  found from left to right, each search starting where the last match ended, one
  character further after an empty match.
\<close>

fun match_count :: "regex_atom list \<Rightarrow> string \<Rightarrow> nat" where
  "match_count regex [] = (if regex = [] then 1 else 0)"
| "match_count regex (x # xs) =
     (if matches_here regex (x # xs)
      then 1 + match_count regex (drop (length regex - 1) xs)
      else match_count regex xs)"

definition keyword_score :: "string \<Rightarrow> string \<Rightarrow> string option \<Rightarrow> nat option" where
  "keyword_score keyword title' content' =
     (case new_RegExp (toLowerCase keyword) of
        None \<Rightarrow> None
      | Some regex \<Rightarrow>
          (let titleMatches = match_count regex (toLowerCase title');
               contentMatches =
                 match_count regex (toLowerCase (case content' of Some c \<Rightarrow> c | None \<Rightarrow> []))
           in Some (titleMatches * 10 + contentMatches * 5)))"

text \<open>The \<^verbatim>\<open>forEach\<close> over the keywords, from \<^verbatim>\<open>score\<close> on.\<close>

fun keywords_score :: "string list \<Rightarrow> string \<Rightarrow> string option \<Rightarrow> nat \<Rightarrow> nat option" where
  "keywords_score [] title' content' score' = Some score'"
| "keywords_score (keyword # rest) title' content' score' =
     (case keyword_score keyword title' content' of
        None \<Rightarrow> None
      | Some n \<Rightarrow> keywords_score rest title' content' (score' + n))"

text \<open>
  The result is \<open>None\<close> exactly when a keyword lies outside the patterns that the model
  covers and the function gets as far as compiling it.
\<close>

definition PostModel_updateRelevanceScore ::
  "nat \<Rightarrow> string list \<Rightarrow> database \<Rightarrow> ((js_error + unit) \<times> database) option" where
  "PostModel_updateRelevanceScore postId keywords db =
     (case query_fault db of
        (Some error, db1) \<Rightarrow> Some (Inl error, db1)
      | (None, db1) \<Rightarrow>
          (case filter (\<lambda>r. p_id r = postId) (posts db1) of
             [] \<Rightarrow> Some (Inr (), db1)
           | post # _ \<Rightarrow>
               (case keywords_score keywords (p_title post) (p_content post) 0 of
                  None \<Rightarrow> None
                | Some score' \<Rightarrow>
                    (case query_fault db1 of
                       (Some error, db2) \<Rightarrow> Some (Inl error, db2)
                     | (None, db2) \<Rightarrow>
                         Some (Inr (),
                               db2\<lparr>posts :=
                                     map (\<lambda>p. if p_id p = postId
                                               then p\<lparr>p_relevance_score := int score'\<rparr>
                                               else p)
                                       (posts db2)\<rparr>)))))"

section \<open>The ingestion service\<close>

record sync_result =
  success :: bool
  postsCount :: nat
  errors :: "string list"

definition storePost :: "RedditPost \<Rightarrow> nat \<Rightarrow> database \<Rightarrow> (js_error + unit) \<times> database" where
  "storePost redditPost subredditId db =
     (case AuthorModel_findOrCreate (rp_author redditPost) 0 0 db of
        (Inl error, db1) \<Rightarrow> (Inl error, db1)
      | (Inr authorId, db1) \<Rightarrow>
          (case PostModel_create
                  \<lparr>reddit_id = rp_id redditPost,
                   title = rp_title redditPost,
                   content = string_or_null (Some (rp_selftext redditPost)),
                   subreddit_id = subredditId,
                   author_id = Some authorId,
                   score = rp_score redditPost,
                   upvotes = rp_ups redditPost,
                   downvotes = rp_downs redditPost,
                   comment_count = rp_num_comments redditPost,
                   created_utc = rp_created_utc redditPost * 1000,
                   url = rp_url redditPost,
                   processed = False,
                   relevance_score = None\<rparr> db1 of
             (Inl error, db2) \<Rightarrow> (Inl error, db2)
           | (Inr _, db2) \<Rightarrow> (Inr (), db2)))"

text \<open>The line that the loop records for a post whose storing failed.\<close>

definition store_failure :: "RedditPost \<Rightarrow> string \<Rightarrow> string" where
  "store_failure post msg = ''Failed to store post '' @ rp_id post @ '': '' @ msg"

text \<open>
  The loop over the fetched posts, with the two things it accumulates: \<^verbatim>\<open>postsCount\<close> and
  \<^verbatim>\<open>errors\<close>.
\<close>

fun store_posts ::
  "RedditPost list \<Rightarrow> nat \<Rightarrow> nat \<Rightarrow> string list \<Rightarrow> database \<Rightarrow> (nat \<times> string list) \<times> database" where
  "store_posts [] subredditId postsCount' errors' db = ((postsCount', errors'), db)"
| "store_posts (post # rest) subredditId postsCount' errors' db =
     (case storePost post subredditId db of
        (Inr _, db1) \<Rightarrow> store_posts rest subredditId (postsCount' + 1) errors' db1
      | (Inl error, db1) \<Rightarrow>
          store_posts rest subredditId postsCount'
            (errors' @ [store_failure post (message error)]) db1)"

definition syncSubreddit ::
  "string \<Rightarrow> nat \<Rightarrow> time_filter \<Rightarrow> sort_order \<Rightarrow> world \<Rightarrow> database \<Rightarrow> sync_result \<times> world \<times> database" where
  "syncSubreddit subredditName limit timeFilter sortOrder w db =
     (case fetchPosts subredditName limit timeFilter sortOrder w of
        (Inl error, w1) \<Rightarrow>
          (\<lparr>success = False, postsCount = 0, errors = [message error]\<rparr>, w1, db)
      | (Inr fetched, w1) \<Rightarrow>
          if length fetched = 0 then (\<lparr>success = True, postsCount = 0, errors = []\<rparr>, w1, db)
          else
            (case SubredditModel_findOrCreate subredditName None None db of
               (Inl error, db1) \<Rightarrow>
                 (\<lparr>success = False, postsCount = 0, errors = [message error]\<rparr>, w1, db1)
             | (Inr subredditId, db1) \<Rightarrow>
                 (case store_posts fetched subredditId 0 [] db1 of
                    ((postsCount', errors'), db2) \<Rightarrow>
                      (\<lparr>success = True, postsCount = postsCount', errors = errors'\<rparr>, w1, db2))))"

section \<open>Concrete situations and described behaviour\<close>

text \<open>
  The service as its constructor leaves it at the instant 1000000, with the default
  configuration (30 requests per minute, 2000 ms between requests), credentials set, a
  working and empty cache, and a remote API that answers every listing request with an
  empty listing without quota headers.
\<close>

definition empty_listing :: http_response where
  "empty_listing =
     \<lparr>x_ratelimit_remaining = None, x_ratelimit_reset = None, listing_children = []\<rparr>"

definition fresh_world :: world where
  "fresh_world =
     \<lparr>clock = 1000000, slept = [], sent = [], accessToken = None, tokenExpiry = 0,
      requestCount = 0, lastResetTime = 1000000, lastRequestTime = 0,
      redditRateLimitRemaining = 60, redditRateLimitReset = 0,
      RATE_LIMIT = 30, MIN_REQUEST_INTERVAL = 2000,
      REDDIT_CLIENT_ID = Some ''id'', REDDIT_CLIENT_SECRET = Some ''secret'',
      gets = 0, get_reply = (\<lambda>n. Inr empty_listing),
      auths = 0, auth_reply = (\<lambda>n. Inr \<lparr>access_token = ''token'', expires_in = 3600\<rparr>),
      redis_up = True, cache = Map.empty\<rparr>"

text \<open>The error of a request that the remote API answers with status 429.\<close>

definition throttled :: js_error where
  "throttled = JsError ''Request failed with status code 429'' (Some 429)"

text \<open>
  The order of the waits as the description of the throttle has it: the wait for the
  minimum interval, then the wait for the remote quota, then the wait for the local window.
\<close>

fun described_rank :: "wait_reason \<Rightarrow> nat" where
  "described_rank IntervalWait = 0"
| "described_rank RemoteQuotaWait = 1"
| "described_rank LocalLimitWait = 2"
| "described_rank Backoff = 3"

definition waits_as_described :: "(wait_reason \<times> int) list \<Rightarrow> bool" where
  "waits_as_described ws = sorted (map (\<lambda>x. described_rank (fst x)) ws)"

text \<open>
  Half a second after the last request, with the remote quota used up and its reset 300 ms
  ahead.
\<close>

definition quota_used_up :: world where
  "quota_used_up =
     fresh_world\<lparr>lastRequestTime := 999500, redditRateLimitRemaining := 1,
                  redditRateLimitReset := 1000300\<rparr>"

text \<open>
  A valid token at hand, and a remote API that throttles the first listing request and
  answers the later ones.
\<close>

definition throttled_once :: world where
  "throttled_once =
     fresh_world\<lparr>accessToken := Some ''token'', tokenExpiry := 5000000,
                  get_reply := (\<lambda>n. if n = 0 then Inl throttled else Inr empty_listing)\<rparr>"

text \<open>A remote API that throttles every listing request.\<close>

definition always_throttled :: world where
  "always_throttled = fresh_world\<lparr>get_reply := (\<lambda>n. Inl throttled)\<rparr>"

text \<open>
  The same state of the client with another cache behind it: the proofs about the paths
  that never touch the cache are stated with it.
\<close>

definition recache :: "(string \<Rightarrow> (RedditPost list \<times> int) option) \<Rightarrow> bool \<Rightarrow> world \<Rightarrow> world" where
  "recache c up w = w\<lparr>cache := c, redis_up := up\<rparr>"

text \<open>A post as the client returns it, and a cache that holds a listing of it.\<close>

definition sample_post :: RedditPost where
  "sample_post =
     \<lparr>rp_id = ''abc'', rp_title = ''Hello'', rp_selftext = ''world'', rp_author = ''alice'',
      rp_subreddit = ''a'', rp_score = 10, rp_ups = 12, rp_downs = 2, rp_num_comments = 3,
      rp_created_utc = 1700000000, rp_url = ''https://example.org/'',
      rp_permalink = ''/r/a/comments/abc''\<rparr>"

definition warm_world :: world where
  "warm_world =
     fresh_world\<lparr>cache := [posts_cache_key ''a'' Hot Week 100 \<mapsto> ([sample_post], 1500000)]\<rparr>"


text \<open>
  A store that is up, with one community, one author and no post; and two observations of
  the same external item, the later one with other counters.
\<close>

definition seeded_db :: database where
  "seeded_db =
     \<lparr>subreddits = [\<lparr>sr_id = 1, sr_name = ''a'', sr_description = None,
                      sr_subscribers_count = 0\<rparr>],
      authors = [\<lparr>au_id = 1, au_username = ''alice'', au_link_karma = 120,
                   au_comment_karma = 45\<rparr>],
      posts = [],
      subreddits_id_seq = 2, authors_id_seq = 2, posts_id_seq = 1, faults = []\<rparr>"



text \<open>
  The same store when its connection is lost at the next query, and when its fifth query
  from now fails; the listing of three posts of one author, and a cache that holds it.
\<close>

definition offline_db :: database where
  "offline_db = seeded_db\<lparr>faults := [Some ''Connection terminated unexpectedly'']\<rparr>"

definition three_posts :: "RedditPost list" where
  "three_posts =
     [sample_post\<lparr>rp_id := ''p1''\<rparr>, sample_post\<lparr>rp_id := ''p2''\<rparr>,
      sample_post\<lparr>rp_id := ''p3''\<rparr>]"

definition warm_world3 :: world where
  "warm_world3 =
     fresh_world\<lparr>cache := [posts_cache_key ''a'' Hot Week 100 \<mapsto> (three_posts, 1500000)]\<rparr>"

definition flaky_db :: database where
  "flaky_db = seeded_db\<lparr>faults := [None, None, None, None, Some ''deadlock detected'']\<rparr>"

text \<open>The store with one post whose title writes the name of a runtime with a hyphen.\<close>

definition node_post_db :: database where
  "node_post_db =
     seeded_db\<lparr>posts :=
       [\<lparr>p_id = 1, p_reddit_id = ''abc'', p_title = ''Learning node-js'', p_content = None,
         p_subreddit_id = 1, p_author_id = Some 1, p_score = 10, p_upvotes = 12,
         p_downvotes = 2, p_comment_count = 3, p_created_utc = 1700000000000,
         p_url = ''https://example.org/'', p_processed = False, p_relevance_score = 0\<rparr>],
       posts_id_seq := 2\<rparr>"

text \<open>The occurrences of a word in a text, counted from left to right without overlap.\<close>

fun occurrences :: "string \<Rightarrow> string \<Rightarrow> nat" where
  "occurrences word [] = (if word = [] then 1 else 0)"
| "occurrences word (x # xs) =
     (if prefix word (x # xs)
      then 1 + occurrences word (drop (length word - 1) xs)
      else occurrences word xs)"







text \<open>
  A keyword without any character of the pattern syntax, and the score as the description
  has it: for each keyword ten times its occurrences in the title plus five times its
  occurrences in the body, all in lower case.
\<close>

definition plain_keyword :: "string \<Rightarrow> bool" where
  "plain_keyword k = (\<forall>c \<in> set k. c \<notin> set syntax_characters)"

definition described_score :: "string list \<Rightarrow> string \<Rightarrow> string option \<Rightarrow> nat" where
  "described_score keywords title' content' =
     (\<Sum>k\<leftarrow>keywords.
        10 * occurrences (toLowerCase k) (toLowerCase title')
        + 5 * occurrences (toLowerCase k)
                (toLowerCase (case content' of Some c \<Rightarrow> c | None \<Rightarrow> [])))"

text \<open>
  The per-item reducer as the description has it: every fetched post is tried, in order,
  each on the store as the attempts before it have left it, whatever their outcome. The
  attempts with their outcomes, the store after all of them, and the lines that the failed
  attempts leave, each naming the external identifier of its post.
\<close>

fun attempts :: "RedditPost list \<Rightarrow> nat \<Rightarrow> database \<Rightarrow> (RedditPost \<times> (js_error + unit)) list" where
  "attempts [] subredditId db = []"
| "attempts (post # rest) subredditId db =
     (post, fst (storePost post subredditId db))
       # attempts rest subredditId (snd (storePost post subredditId db))"

definition after_attempts :: "RedditPost list \<Rightarrow> nat \<Rightarrow> database \<Rightarrow> database" where
  "after_attempts fetched subredditId db =
     foldl (\<lambda>d post. snd (storePost post subredditId d)) db fetched"

definition failure_lines :: "(RedditPost \<times> (js_error + unit)) list \<Rightarrow> string list" where
  "failure_lines tried =
     concat (map (\<lambda>(post, outcome).
                    case outcome of
                      Inl e \<Rightarrow> [''Failed to store post '' @ rp_id post @ '': '' @ message e]
                    | Inr u \<Rightarrow> [])
                 tried)"





section \<open>Properties of the client\<close>

subsection \<open>What each step reads and writes\<close>

lemma sleep_fields [simp]:
  "clock (sleep why d w) = clock w + max 0 d"
  "slept (sleep why d w) = slept w @ [(why, d)]"
  "sent (sleep why d w) = sent w"
  "requestCount (sleep why d w) = requestCount w"
  "lastResetTime (sleep why d w) = lastResetTime w"
  "lastRequestTime (sleep why d w) = lastRequestTime w"
  "redditRateLimitRemaining (sleep why d w) = redditRateLimitRemaining w"
  "redditRateLimitReset (sleep why d w) = redditRateLimitReset w"
  "RATE_LIMIT (sleep why d w) = RATE_LIMIT w"
  "MIN_REQUEST_INTERVAL (sleep why d w) = MIN_REQUEST_INTERVAL w"
  "redis_up (sleep why d w) = redis_up w"
  "cache (sleep why d w) = cache w"
  by (simp_all add: sleep_def)

lemma waitForRequestInterval_fields [simp]:
  "slept (waitForRequestInterval w) = slept w @
     (if clock w - lastRequestTime w < MIN_REQUEST_INTERVAL w
      then [(IntervalWait, MIN_REQUEST_INTERVAL w - (clock w - lastRequestTime w))] else [])"
  "clock (waitForRequestInterval w) =
     (if clock w - lastRequestTime w < MIN_REQUEST_INTERVAL w
      then lastRequestTime w + MIN_REQUEST_INTERVAL w else clock w)"
  "lastRequestTime (waitForRequestInterval w) = clock (waitForRequestInterval w)"
  "requestCount (waitForRequestInterval w) = requestCount w"
  "lastResetTime (waitForRequestInterval w) = lastResetTime w"
  "redditRateLimitRemaining (waitForRequestInterval w) = redditRateLimitRemaining w"
  "redis_up (waitForRequestInterval w) = redis_up w"
  by (simp_all add: waitForRequestInterval_def Let_def)

lemma setCache_fields [simp]:
  "redis_up (setCache key v ttl w) = redis_up w"
  "clock (setCache key v ttl w) = clock w"
  "redis_up w \<Longrightarrow> cache (setCache key v ttl w) key = Some (v, clock w + ttl * 1000)"
  by (simp_all add: setCache_def)

lemma updateRateLimitFromHeaders_fields [simp]:
  "redis_up (updateRateLimitFromHeaders response w) = redis_up w"
  "clock (updateRateLimitFromHeaders response w) = clock w"
  "cache (updateRateLimitFromHeaders response w) = cache w"
  by (simp_all add: updateRateLimitFromHeaders_def Let_def split: option.split)


lemma checkRateLimit_redis [simp]:
  "redis_up (checkRateLimit w) = redis_up w"
  by (simp add: checkRateLimit_def Let_def)


subsection \<open>The cache key tells its four parameters apart\<close>













subsection \<open>The retry loop\<close>


subsection \<open>A miss fills the cache\<close>







lemma waitForRequestInterval_cache [simp]:
  "cache (waitForRequestInterval w) = cache w"
  by (simp add: waitForRequestInterval_def Let_def)

lemma checkRateLimit_cache [simp]:
  "cache (checkRateLimit w) = cache w"
  by (simp add: checkRateLimit_def Let_def)


lemma setCache_down [simp]: "\<not> redis_up w \<Longrightarrow> setCache key v ttl w = w"
  by (simp add: setCache_def)




subsection \<open>Searching leaves the cache aside\<close>

lemma recache_fields [simp]:
  "clock (recache c up w) = clock w"
  "slept (recache c up w) = slept w"
  "sent (recache c up w) = sent w"
  "accessToken (recache c up w) = accessToken w"
  "tokenExpiry (recache c up w) = tokenExpiry w"
  "requestCount (recache c up w) = requestCount w"
  "lastResetTime (recache c up w) = lastResetTime w"
  "lastRequestTime (recache c up w) = lastRequestTime w"
  "redditRateLimitRemaining (recache c up w) = redditRateLimitRemaining w"
  "redditRateLimitReset (recache c up w) = redditRateLimitReset w"
  "RATE_LIMIT (recache c up w) = RATE_LIMIT w"
  "MIN_REQUEST_INTERVAL (recache c up w) = MIN_REQUEST_INTERVAL w"
  "REDDIT_CLIENT_ID (recache c up w) = REDDIT_CLIENT_ID w"
  "REDDIT_CLIENT_SECRET (recache c up w) = REDDIT_CLIENT_SECRET w"
  "gets (recache c up w) = gets w"
  "get_reply (recache c up w) = get_reply w"
  "auths (recache c up w) = auths w"
  "auth_reply (recache c up w) = auth_reply w"
  "cache (recache c up w) = c"
  "redis_up (recache c up w) = up"
  by (simp_all add: recache_def)

lemma recache_updates [simp]:
  "(recache c up w)\<lparr>clock := a1\<rparr> = recache c up (w\<lparr>clock := a1\<rparr>)"
  "(recache c up w)\<lparr>slept := a2\<rparr> = recache c up (w\<lparr>slept := a2\<rparr>)"
  "(recache c up w)\<lparr>sent := a3\<rparr> = recache c up (w\<lparr>sent := a3\<rparr>)"
  "(recache c up w)\<lparr>accessToken := a4\<rparr> = recache c up (w\<lparr>accessToken := a4\<rparr>)"
  "(recache c up w)\<lparr>tokenExpiry := a5\<rparr> = recache c up (w\<lparr>tokenExpiry := a5\<rparr>)"
  "(recache c up w)\<lparr>requestCount := a6\<rparr> = recache c up (w\<lparr>requestCount := a6\<rparr>)"
  "(recache c up w)\<lparr>lastResetTime := a7\<rparr> = recache c up (w\<lparr>lastResetTime := a7\<rparr>)"
  "(recache c up w)\<lparr>lastRequestTime := a8\<rparr> = recache c up (w\<lparr>lastRequestTime := a8\<rparr>)"
  "(recache c up w)\<lparr>redditRateLimitRemaining := a9\<rparr>
     = recache c up (w\<lparr>redditRateLimitRemaining := a9\<rparr>)"
  "(recache c up w)\<lparr>redditRateLimitReset := a10\<rparr>
     = recache c up (w\<lparr>redditRateLimitReset := a10\<rparr>)"
  "(recache c up w)\<lparr>gets := a11\<rparr> = recache c up (w\<lparr>gets := a11\<rparr>)"
  "(recache c up w)\<lparr>auths := a12\<rparr> = recache c up (w\<lparr>auths := a12\<rparr>)"
  by (simp_all add: recache_def)

lemma recache_if [simp]:
  "(if b then recache c up x else recache c up y) = recache c up (if b then x else y)"
  by simp

lemma sleep_recache [simp]:
  "sleep why d (recache c up w) = recache c up (sleep why d w)"
  by (simp add: sleep_def)

lemma waitForRequestInterval_recache [simp]:
  "waitForRequestInterval (recache c up w) = recache c up (waitForRequestInterval w)"
  by (simp add: waitForRequestInterval_def Let_def split del: if_split cong: if_cong)








section \<open>Properties of the store\<close>

lemma query_fault_keeps:
  "query_fault db = (r, db1) \<Longrightarrow>
   posts db1 = posts db \<and> authors db1 = authors db \<and> subreddits db1 = subreddits db
   \<and> posts_id_seq db1 = posts_id_seq db \<and> authors_id_seq db1 = authors_id_seq db
   \<and> subreddits_id_seq db1 = subreddits_id_seq db"
  by (auto simp: query_fault_def split: list.splits)

lemma filter_key_unique:
  "distinct (map f xs) \<Longrightarrow> x \<in> set xs \<Longrightarrow> filter (\<lambda>y. f y = f x) xs = [x]"
proof (induction xs)
  case Nil
  then show ?case by simp
next
  case (Cons a xs)
  show ?case
  proof (cases "a = x")
    case True
    with Cons.prems have "\<forall>y \<in> set xs. f y \<noteq> f x" by (auto simp: image_iff)
    then have "filter (\<lambda>y. f y = f x) xs = []" by (simp add: filter_empty_conv)
    with True show ?thesis by simp
  next
    case False
    with Cons.prems have "x \<in> set xs" "f a \<noteq> f x" by (auto simp: image_iff)
    with Cons show ?thesis by simp
  qed
qed





lemma PostModel_create_keeps:
  "PostModel_create post db = (r, db') \<Longrightarrow>
   authors db' = authors db \<and> subreddits db' = subreddits db"
proof -
  assume run: "PostModel_create post db = (r, db')"
  obtain f db1 where q: "query_fault db = (f, db1)" by (cases "query_fault db")
  note k = query_fault_keeps[OF q]
  from run q k show ?thesis
    by (cases f; cases "filter (\<lambda>r. p_reddit_id r = reddit_id post) (posts db1)")
      (auto simp: PostModel_create_def)
qed

lemma AuthorModel_findOrCreate_known:
  assumes "AuthorModel_findOrCreate username linkKarma commentKarma db = (Inr i, db')"
    and "a \<in> set (authors db)" and "au_username a = username"
  shows "authors db' =
           map (\<lambda>x. if au_username x = username
                     then x\<lparr>au_link_karma := linkKarma, au_comment_karma := commentKarma\<rparr>
                     else x) (authors db)"
proof -
  obtain f1 db1 where q1: "query_fault db = (f1, db1)" by (cases "query_fault db")
  obtain f2 db2 where q2: "query_fault db1 = (f2, db2)" by (cases "query_fault db1")
  note k1 = query_fault_keeps[OF q1] and k2 = query_fault_keeps[OF q2]
  have "filter (\<lambda>r. au_username r = username) (authors db1) \<noteq> []"
    using assms(2,3) k1 by (auto simp: filter_empty_conv)
  then obtain r rs where flt: "filter (\<lambda>r. au_username r = username) (authors db1) = r # rs"
    by (cases "filter (\<lambda>r. au_username r = username) (authors db1)") auto
  from assms(1) q1 q2 flt k1 k2 show ?thesis
    by (cases f1; cases f2) (auto simp: AuthorModel_findOrCreate_def)
qed

lemma storePost_known_author:
  assumes "storePost redditPost subredditId db = (Inr u, db')"
    and "a \<in> set (authors db)" and "au_username a = rp_author redditPost"
  shows "authors db' =
           map (\<lambda>x. if au_username x = rp_author redditPost
                     then x\<lparr>au_link_karma := 0, au_comment_karma := 0\<rparr>
                     else x) (authors db)"
proof -
  obtain r1 db1 where f: "AuthorModel_findOrCreate (rp_author redditPost) 0 0 db = (r1, db1)"
    by (cases "AuthorModel_findOrCreate (rp_author redditPost) 0 0 db")
  from assms(1) f obtain authorId where r1: "r1 = Inr authorId"
    by (cases r1) (auto simp: storePost_def)
  let ?post = "\<lparr>reddit_id = rp_id redditPost,
                   title = rp_title redditPost,
                   content = string_or_null (Some (rp_selftext redditPost)),
                   subreddit_id = subredditId,
                   author_id = Some authorId,
                   score = rp_score redditPost,
                   upvotes = rp_ups redditPost,
                   downvotes = rp_downs redditPost,
                   comment_count = rp_num_comments redditPost,
                   created_utc = rp_created_utc redditPost * 1000,
                   url = rp_url redditPost,
                   processed = False,
                   relevance_score = None\<rparr>"
  obtain r2 db2 where c: "PostModel_create ?post db1 = (r2, db2)"
    by (cases "PostModel_create ?post db1")
  from assms(1) f r1 c have "db' = db2"
    by (cases r2) (auto simp: storePost_def)
  then have "authors db' = authors db1"
    using PostModel_create_keeps[OF c] by simp
  then show ?thesis
    using AuthorModel_findOrCreate_known[OF f[unfolded r1] assms(2,3)] by simp
qed

lemma store_posts_outcome:
  "store_posts ps sid n errs db = ((n', errs'), db') \<Longrightarrow>
   \<exists>failed new. subseq failed ps \<and> errs' = errs @ new
     \<and> list_all2 (\<lambda>p m. \<exists>e. m = store_failure p e) failed new
     \<and> n' + length failed = n + length ps"
proof (induction ps arbitrary: n errs db)
  case Nil
  then show ?case by auto
next
  case (Cons p ps)
  obtain r db1 where s: "storePost p sid db = (r, db1)" by (cases "storePost p sid db")
  show ?case
  proof (cases r)
    case (Inr u)
    with Cons.prems s have "store_posts ps sid (n + 1) errs db1 = ((n', errs'), db')" by simp
    from Cons.IH[OF this] obtain failed new where
      f: "subseq failed ps" "errs' = errs @ new"
      "list_all2 (\<lambda>p m. \<exists>e. m = store_failure p e) failed new"
      "n' + length failed = n + 1 + length ps" by blast
    have "subseq failed (p # ps)" using f(1) by (rule list_emb_Cons)
    with f show ?thesis
      by (intro exI[of _ failed] exI[of _ new]) simp
  next
    case (Inl e)
    let ?m = "store_failure p (message e)"
    from Inl Cons.prems s have "store_posts ps sid n (errs @ [?m]) db1 = ((n', errs'), db')"
      by simp
    from Cons.IH[OF this] obtain failed new where
      f: "subseq failed ps" "errs' = (errs @ [?m]) @ new"
      "list_all2 (\<lambda>p m. \<exists>e. m = store_failure p e) failed new"
      "n' + length failed = n + length ps" by blast
    have "subseq (p # failed) (p # ps)" using f(1) by simp
    moreover have "list_all2 (\<lambda>p m. \<exists>e. m = store_failure p e) (p # failed) (?m # new)"
      using f(3) by auto
    ultimately show ?thesis
      using f(2,4) by (intro exI[of _ "p # failed"] exI[of _ "?m # new"]) simp
  qed
qed



lemma failure_lines_simps:
  "failure_lines [] = []"
  "failure_lines ((p, Inl e) # tried) = store_failure p (message e) # failure_lines tried"
  "failure_lines ((p, Inr u) # tried) = failure_lines tried"
  by (simp_all add: failure_lines_def store_failure_def)

lemma after_attempts_simps:
  "after_attempts [] sid db = db"
  "after_attempts (p # ps) sid db = after_attempts ps sid (snd (storePost p sid db))"
  by (simp_all add: after_attempts_def)

lemma attempts_posts: "map fst (attempts ps sid db) = ps"
  by (induction ps arbitrary: db) simp_all

lemma store_posts_attempts:
  "store_posts ps sid n errs db =
     ((n + length (filter (\<lambda>a. \<not> isl (snd a)) (attempts ps sid db)),
       errs @ failure_lines (attempts ps sid db)),
      after_attempts ps sid db)"
proof (induction ps arbitrary: n errs db)
  case Nil
  then show ?case by (simp add: failure_lines_simps after_attempts_simps)
next
  case (Cons p ps)
  obtain r db1 where s: "storePost p sid db = (r, db1)" by (cases "storePost p sid db")
  show ?case
  proof (cases r)
    case (Inl e)
    then show ?thesis
      using s Cons.IH[of n "errs @ [store_failure p (message e)]" db1]
      by (simp add: failure_lines_simps after_attempts_simps)
  next
    case (Inr u)
    then show ?thesis
      using s Cons.IH[of "n + 1" errs db1]
      by (simp add: failure_lines_simps after_attempts_simps)
  qed
qed

lemma failure_lines_length:
  "length (failure_lines tried) = length (filter (\<lambda>a. isl (snd a)) tried)"
proof (induction tried)
  case Nil
  then show ?case by (simp add: failure_lines_simps)
next
  case (Cons a tried)
  obtain p r where a: "a = (p, r)" by (cases a)
  show ?case using Cons a by (cases r) (simp_all add: failure_lines_simps)
qed

lemma failure_lines_nonempty:
  assumes "\<exists>a \<in> set tried. isl (snd a)"
  shows "failure_lines tried \<noteq> []"
proof -
  from assms have "filter (\<lambda>a. isl (snd a)) tried \<noteq> []"
    by (simp add: filter_empty_conv)
  then have "length (failure_lines tried) \<noteq> 0"
    by (simp add: failure_lines_length)
  then show ?thesis by auto
qed

section \<open>Upserting a post\<close>



section \<open>The result of an ingestion run\<close>

text \<open>
  C2, as stated, fails: a run can be unsuccessful although its fetch succeeded. Here the
  fetch is answered from the cache with one post, and the store loses its connection at
  the query that looks the community up.
\<close>

theorem C2_unsuccessful_after_fetch:
  "fst (fetchPosts ''a'' 100 Week Hot warm_world) = Inr [sample_post]
   \<and> fst (syncSubreddit ''a'' 100 Week Hot warm_world offline_db)
       = \<lparr>success = False, postsCount = 0,
          errors = [''Connection terminated unexpectedly'']\<rparr>"
  by (simp add: syncSubreddit_def fetchPosts_def getCached_def warm_world_def fresh_world_def
      posts_cache_key_def SubredditModel_findOrCreate_def query_fault_def offline_db_def
      seeded_db_def)

text \<open>
  C2, amended. A run returns \<open>success = false\<close> when the fetch fails and when, after a fetch
  of at least one post, finding or creating the community fails; in both cases it counts
  no post and reports the one message of that failure. A fetch of no post gives the
  successful empty result and leaves the store alone. In every other run the result is
  successful, and the loop is the reducer over the fetched posts: every fetched post is
  tried, in order, on the store as the earlier attempts have left it, also after a failure;
  the count is the number of attempts that succeeded, the messages are the lines of the
  attempts that failed, in order, each naming the external identifier of its post, so that
  a failed attempt makes the list of messages non-empty; the store at the end is the
  store after all attempts.
\<close>

theorem C2_syncSubreddit_outcome:
  "(fetchPosts subredditName limit timeFilter sortOrder w = (Inl e, w1)
      \<longrightarrow> syncSubreddit subredditName limit timeFilter sortOrder w db
            = (\<lparr>success = False, postsCount = 0, errors = [message e]\<rparr>, w1, db))
   \<and> (fetchPosts subredditName limit timeFilter sortOrder w = (Inr [], w1)
      \<longrightarrow> syncSubreddit subredditName limit timeFilter sortOrder w db
            = (\<lparr>success = True, postsCount = 0, errors = []\<rparr>, w1, db))
   \<and> (fetchPosts subredditName limit timeFilter sortOrder w = (Inr fetched, w1) \<and> fetched \<noteq> []
       \<and> SubredditModel_findOrCreate subredditName None None db = (Inl e, db1)
      \<longrightarrow> syncSubreddit subredditName limit timeFilter sortOrder w db
            = (\<lparr>success = False, postsCount = 0, errors = [message e]\<rparr>, w1, db1))
   \<and> (fetchPosts subredditName limit timeFilter sortOrder w = (Inr fetched, w1) \<and> fetched \<noteq> []
       \<and> SubredditModel_findOrCreate subredditName None None db = (Inr subredditId, db1)
       \<and> syncSubreddit subredditName limit timeFilter sortOrder w db = (result, w2, db2)
      \<longrightarrow> success result
          \<and> postsCount result + length (errors result) = length fetched
          \<and> (\<exists>failed. subseq failed fetched
                \<and> list_all2 (\<lambda>p m. \<exists>e. m = store_failure p e) failed (errors result))
          \<and> map fst (attempts fetched subredditId db1) = fetched
          \<and> postsCount result
               = length (filter (\<lambda>a. \<not> isl (snd a)) (attempts fetched subredditId db1))
          \<and> errors result = failure_lines (attempts fetched subredditId db1)
          \<and> ((\<exists>a \<in> set (attempts fetched subredditId db1). isl (snd a))
                \<longrightarrow> errors result \<noteq> [])
          \<and> w2 = w1
          \<and> db2 = after_attempts fetched subredditId db1)"
proof (intro conjI impI)
  assume "fetchPosts subredditName limit timeFilter sortOrder w = (Inl e, w1)"
  then show "syncSubreddit subredditName limit timeFilter sortOrder w db
            = (\<lparr>success = False, postsCount = 0, errors = [message e]\<rparr>, w1, db)"
    by (simp add: syncSubreddit_def)
next
  assume "fetchPosts subredditName limit timeFilter sortOrder w = (Inr [], w1)"
  then show "syncSubreddit subredditName limit timeFilter sortOrder w db
            = (\<lparr>success = True, postsCount = 0, errors = []\<rparr>, w1, db)"
    by (simp add: syncSubreddit_def)
next
  assume "fetchPosts subredditName limit timeFilter sortOrder w = (Inr fetched, w1) \<and> fetched \<noteq> []
       \<and> SubredditModel_findOrCreate subredditName None None db = (Inl e, db1)"
  then show "syncSubreddit subredditName limit timeFilter sortOrder w db
            = (\<lparr>success = False, postsCount = 0, errors = [message e]\<rparr>, w1, db1)"
    by (simp add: syncSubreddit_def)
next
  assume h: "fetchPosts subredditName limit timeFilter sortOrder w = (Inr fetched, w1) \<and> fetched \<noteq> []
       \<and> SubredditModel_findOrCreate subredditName None None db = (Inr subredditId, db1)
       \<and> syncSubreddit subredditName limit timeFilter sortOrder w db = (result, w2, db2)"
  let ?tried = "attempts fetched subredditId db1"
  obtain n errs db3 where loop: "store_posts fetched subredditId 0 [] db1 = ((n, errs), db3)"
    by (cases "store_posts fetched subredditId 0 [] db1") auto
  from h have h1: "fetchPosts subredditName limit timeFilter sortOrder w = (Inr fetched, w1)"
    and h2: "fetched \<noteq> []"
    and h3: "SubredditModel_findOrCreate subredditName None None db = (Inr subredditId, db1)"
    and h4: "syncSubreddit subredditName limit timeFilter sortOrder w db = (result, w2, db2)"
    by simp_all
  from h4 have res: "result = \<lparr>success = True, postsCount = n, errors = errs\<rparr>"
    and ws: "w2 = w1" and dbs: "db2 = db3"
    by (simp_all add: syncSubreddit_def h1 h2 h3 loop)
  from loop have exact: "n = length (filter (\<lambda>a. \<not> isl (snd a)) ?tried)"
    "errs = failure_lines ?tried" "db3 = after_attempts fetched subredditId db1"
    by (simp_all add: store_posts_attempts)
  from store_posts_outcome[OF loop] obtain failed new where
    f: "subseq failed fetched" "errs = [] @ new"
      "list_all2 (\<lambda>p m. \<exists>e. m = store_failure p e) failed new"
      "n + length failed = 0 + length fetched" by blast
  have len: "length failed = length new" using f(3) by (rule list_all2_lengthD)
  {
    show "success result" using res by simp
    show "postsCount result + length (errors result) = length fetched"
      using res f(2,4) len by simp
    show "\<exists>failed. subseq failed fetched
                \<and> list_all2 (\<lambda>p m. \<exists>e. m = store_failure p e) failed (errors result)"
      using res f by auto
    show "map fst ?tried = fetched" by (rule attempts_posts)
    show "postsCount result = length (filter (\<lambda>a. \<not> isl (snd a)) ?tried)"
      using res exact(1) by simp
    show "errors result = failure_lines ?tried"
      using res exact(2) by simp
    show "w2 = w1" by (rule ws)
    show "db2 = after_attempts fetched subredditId db1"
      using dbs exact(3) by simp
  }
next
  assume h: "fetchPosts subredditName limit timeFilter sortOrder w = (Inr fetched, w1) \<and> fetched \<noteq> []
       \<and> SubredditModel_findOrCreate subredditName None None db = (Inr subredditId, db1)
       \<and> syncSubreddit subredditName limit timeFilter sortOrder w db = (result, w2, db2)"
    and failed: "\<exists>a \<in> set (attempts fetched subredditId db1). isl (snd a)"
  obtain n errs db3 where loop: "store_posts fetched subredditId 0 [] db1 = ((n, errs), db3)"
    by (cases "store_posts fetched subredditId 0 [] db1") auto
  from h have h1: "fetchPosts subredditName limit timeFilter sortOrder w = (Inr fetched, w1)"
    and h2: "fetched \<noteq> []"
    and h3: "SubredditModel_findOrCreate subredditName None None db = (Inr subredditId, db1)"
    and h4: "syncSubreddit subredditName limit timeFilter sortOrder w db = (result, w2, db2)"
    by simp_all
  from h4 have res: "result = \<lparr>success = True, postsCount = n, errors = errs\<rparr>"
    by (simp add: syncSubreddit_def h1 h2 h3 loop)
  from loop have "errs = failure_lines (attempts fetched subredditId db1)"
    by (simp add: store_posts_attempts)
  then show "errors result \<noteq> []"
    using res failure_lines_nonempty[OF failed] by simp
qed

theorem C2_syncSubreddit_outcome_witness:
  "fst (fetchPosts ''a'' 100 Week Hot warm_world3) = Inr three_posts
   \<and> three_posts \<noteq> []
   \<and> fst (SubredditModel_findOrCreate ''a'' None None flaky_db) = Inr 1
   \<and> fst (syncSubreddit ''a'' 100 Week Hot warm_world3 flaky_db)
       = \<lparr>success = True, postsCount = 2,
          errors = [''Failed to store post p2: deadlock detected'']\<rparr>
   \<and> map (\<lambda>a. (rp_id (fst a), isl (snd a)))
        (attempts three_posts 1 (snd (SubredditModel_findOrCreate ''a'' None None flaky_db)))
       = [(''p1'', False), (''p2'', True), (''p3'', False)]
   \<and> map p_reddit_id (posts (snd (snd (syncSubreddit ''a'' 100 Week Hot warm_world3 flaky_db))))
       = [''p1'', ''p3'']"
proof -
  have fetch: "fetchPosts ''a'' 100 Week Hot warm_world3 = (Inr three_posts, warm_world3)"
    by (simp add: fetchPosts_def getCached_def warm_world3_def fresh_world_def
        posts_cache_key_def)
  have sub: "fst (SubredditModel_findOrCreate ''a'' None None flaky_db) = Inr 1"
    by (simp add: SubredditModel_findOrCreate_def query_fault_def flaky_db_def seeded_db_def)
  have run: "fst (syncSubreddit ''a'' 100 Week Hot warm_world3 flaky_db)
       = \<lparr>success = True, postsCount = 2,
          errors = [''Failed to store post p2: deadlock detected'']\<rparr>"
    by (simp add: syncSubreddit_def fetch three_posts_def sample_post_def store_failure_def
        SubredditModel_findOrCreate_def storePost_def AuthorModel_findOrCreate_def
        PostModel_create_def query_fault_def flaky_db_def seeded_db_def
        string_or_null_def number_or_null_def)
  have stored: "map p_reddit_id
        (posts (snd (snd (syncSubreddit ''a'' 100 Week Hot warm_world3 flaky_db))))
       = [''p1'', ''p3'']"
    by (simp add: syncSubreddit_def fetch three_posts_def sample_post_def store_failure_def
        SubredditModel_findOrCreate_def storePost_def AuthorModel_findOrCreate_def
        PostModel_create_def query_fault_def flaky_db_def seeded_db_def
        string_or_null_def number_or_null_def)
  have tried: "map (\<lambda>a. (rp_id (fst a), isl (snd a)))
        (attempts three_posts 1 (snd (SubredditModel_findOrCreate ''a'' None None flaky_db)))
       = [(''p1'', False), (''p2'', True), (''p3'', False)]"
    by (simp add: three_posts_def sample_post_def
        SubredditModel_findOrCreate_def storePost_def AuthorModel_findOrCreate_def
        PostModel_create_def query_fault_def flaky_db_def seeded_db_def
        string_or_null_def number_or_null_def)
  have ne: "three_posts \<noteq> []" by (simp add: three_posts_def)
  show ?thesis
    using C2_syncSubreddit_outcome
      [of "''a''" 100 Week Hot warm_world3 _ warm_world3 flaky_db three_posts
          "snd (SubredditModel_findOrCreate ''a'' None None flaky_db)" 1
          "fst (syncSubreddit ''a'' 100 Week Hot warm_world3 flaky_db)"
          "fst (snd (syncSubreddit ''a'' 100 Week Hot warm_world3 flaky_db))"
          "snd (snd (syncSubreddit ''a'' 100 Week Hot warm_world3 flaky_db))"]
      fetch sub run ne stored tried
    by simp
qed

section \<open>The throttle\<close>

text \<open>
  C3, as stated, fails: the wait for the minimum interval is not the first of the waits.
  Half a second after the last request and with the remote quota used up until 300 ms from
  now, the throttle first sleeps the 300 ms for the quota and only then the 1200 ms that
  are still missing from the interval.
\<close>

theorem C3_interval_wait_not_first:
  "slept (checkRateLimit quota_used_up) = [(RemoteQuotaWait, 300), (IntervalWait, 1200)]
   \<and> \<not> waits_as_described (slept (checkRateLimit quota_used_up))"
  by (simp add: checkRateLimit_def quota_used_up_def fresh_world_def
      waits_as_described_def Let_def)

text \<open>
  C3, amended. A call of the throttle first restarts the local window when 60 seconds have
  passed since its start. Then it waits in this order: for the remote quota, when the
  remaining quota is at most 1 and its reset lies ahead, until that reset, and takes the
  quota for replenished (60); for the local window, when the counter has reached the limit,
  60000 ms less the age of the window as measured on entry, and restarts counter and
  window; last for the minimum interval, measured from the last request to the clock as the
  earlier waits have left it. After all waits it stamps the last request with the clock
  and increments the counter.
\<close>

theorem C3_checkRateLimit_order:
  "(let now = clock w;
        timeSinceReset = now - lastResetTime w;
        count0 = (if timeSinceReset \<ge> 60000 then 0 else requestCount w);
        quota = (redditRateLimitRemaining w \<le> 1 \<and> redditRateLimitReset w > now);
        clock1 = (if quota then redditRateLimitReset w else now);
        full = (count0 \<ge> RATE_LIMIT w);
        clock2 = (if full then clock1 + max 0 (60000 - timeSinceReset) else clock1);
        early = (clock2 - lastRequestTime w < MIN_REQUEST_INTERVAL w);
        w' = checkRateLimit w
    in slept w' = slept w
         @ (if quota then [(RemoteQuotaWait, redditRateLimitReset w - now)] else [])
         @ (if full then [(LocalLimitWait, 60000 - timeSinceReset)] else [])
         @ (if early
            then [(IntervalWait, MIN_REQUEST_INTERVAL w - (clock2 - lastRequestTime w))]
            else [])
       \<and> clock w' = (if early then lastRequestTime w + MIN_REQUEST_INTERVAL w else clock2)
       \<and> lastRequestTime w' = clock w'
       \<and> redditRateLimitRemaining w' = (if quota then 60 else redditRateLimitRemaining w)
       \<and> requestCount w' = (if full then 0 else count0) + 1
       \<and> lastResetTime w' =
           (if full then clock2
            else if timeSinceReset \<ge> 60000 then now else lastResetTime w))"
proof -
  define now where "now = clock w"
  define timeSinceReset where "timeSinceReset = now - lastResetTime w"
  define count0 where "count0 = (if timeSinceReset \<ge> 60000 then 0 else requestCount w)"
  define quota where
    "quota = (redditRateLimitRemaining w \<le> 1 \<and> redditRateLimitReset w > now)"
  define clock1 where "clock1 = (if quota then redditRateLimitReset w else now)"
  define full where "full = (count0 \<ge> RATE_LIMIT w)"
  define clock2 where
    "clock2 = (if full then clock1 + max 0 (60000 - timeSinceReset) else clock1)"
  define w1 where
    "w1 = (if timeSinceReset \<ge> 60000 then w\<lparr>requestCount := 0, lastResetTime := now\<rparr> else w)"
  define w2 where
    "w2 = (if redditRateLimitRemaining w1 \<le> 1 \<and> redditRateLimitReset w1 > now
           then (sleep RemoteQuotaWait (redditRateLimitReset w1 - now) w1)
                  \<lparr>redditRateLimitRemaining := 60\<rparr>
           else w1)"
  define w3 where
    "w3 = (if requestCount w2 \<ge> RATE_LIMIT w2
           then (let w' = sleep LocalLimitWait (60000 - timeSinceReset) w2
                 in w'\<lparr>requestCount := 0, lastResetTime := clock w'\<rparr>)
           else w2)"
  have s1: "clock w1 = now" "slept w1 = slept w" "requestCount w1 = count0"
    "lastRequestTime w1 = lastRequestTime w" "RATE_LIMIT w1 = RATE_LIMIT w"
    "MIN_REQUEST_INTERVAL w1 = MIN_REQUEST_INTERVAL w"
    "redditRateLimitRemaining w1 = redditRateLimitRemaining w"
    "redditRateLimitReset w1 = redditRateLimitReset w"
    "lastResetTime w1 = (if timeSinceReset \<ge> 60000 then now else lastResetTime w)"
    by (simp_all add: w1_def now_def count0_def)
  have s2: "clock w2 = clock1"
    "slept w2 = slept w
       @ (if quota then [(RemoteQuotaWait, redditRateLimitReset w - now)] else [])"
    "requestCount w2 = count0" "lastRequestTime w2 = lastRequestTime w"
    "RATE_LIMIT w2 = RATE_LIMIT w" "MIN_REQUEST_INTERVAL w2 = MIN_REQUEST_INTERVAL w"
    "redditRateLimitRemaining w2 = (if quota then 60 else redditRateLimitRemaining w)"
    "lastResetTime w2 = lastResetTime w1"
    by (simp_all add: w2_def s1 clock1_def quota_def)
  have s3: "clock w3 = clock2"
    "slept w3 = slept w
       @ (if quota then [(RemoteQuotaWait, redditRateLimitReset w - now)] else [])
       @ (if full then [(LocalLimitWait, 60000 - timeSinceReset)] else [])"
    "requestCount w3 = (if full then 0 else count0)"
    "lastRequestTime w3 = lastRequestTime w"
    "MIN_REQUEST_INTERVAL w3 = MIN_REQUEST_INTERVAL w"
    "redditRateLimitRemaining w3 = (if quota then 60 else redditRateLimitRemaining w)"
    "lastResetTime w3 =
       (if full then clock2 else if timeSinceReset \<ge> 60000 then now else lastResetTime w)"
    by (simp_all add: w3_def s1 s2 clock2_def full_def Let_def)
  have run: "checkRateLimit w
               = (waitForRequestInterval w3)
                   \<lparr>requestCount := requestCount (waitForRequestInterval w3) + 1\<rparr>"
    unfolding checkRateLimit_def Let_def w3_def w2_def w1_def timeSinceReset_def now_def ..
  show ?thesis
    unfolding Let_def run
    using s3
    unfolding clock2_def full_def clock1_def quota_def count0_def timeSinceReset_def now_def
    by simp
qed

theorem C3_checkRateLimit_order_witness:
  "slept (checkRateLimit quota_used_up) = [(RemoteQuotaWait, 300), (IntervalWait, 1200)]
   \<and> clock (checkRateLimit quota_used_up) = 1001500
   \<and> lastRequestTime (checkRateLimit quota_used_up) = 1001500
   \<and> redditRateLimitRemaining (checkRateLimit quota_used_up) = 60
   \<and> requestCount (checkRateLimit quota_used_up) = 1"
  using C3_checkRateLimit_order [of quota_used_up]
  by (simp add: quota_used_up_def fresh_world_def Let_def)

section \<open>The interval between requests\<close>

text \<open>
  C4 does not hold of the code. With the default configuration (2000 ms between requests)
  and a valid token, the first listing request for \<open>a\<close> is throttled by the remote API; the
  retry goes out 5000 ms later and succeeds. A fetch for \<open>b\<close> that follows at once sends its
  request at the same instant as that retry: the throttle measures the interval from the
  stamp it set before the first attempt, and a retry sets no stamp.
\<close>

theorem C4_request_right_after_retry:
  "(case fetchPosts ''a'' 100 Week Hot throttled_once of
      (r1, w1) \<Rightarrow>
        (case fetchPosts ''b'' 100 Week Hot w1 of
           (r2, w2) \<Rightarrow>
             r1 = Inr [] \<and> r2 = Inr []
             \<and> sent w2 = [(1000000, ''https://oauth.reddit.com/r/a/hot''),
                          (1005000, ''https://oauth.reddit.com/r/a/hot''),
                          (1005000, ''https://oauth.reddit.com/r/b/hot'')]
             \<and> MIN_REQUEST_INTERVAL w2 = 2000))"
  by (simp add: fetchPosts_def getCached_def setCache_def posts_cache_key_def checkRateLimit_def
      waitForRequestInterval_def authenticate_def unset_def makeRequestWithRetry_def
      fetchPosts_request_def client_get_def updateRateLimitFromHeaders_def listed_posts_def
      throttled_once_def fresh_world_def throttled_def empty_listing_def Let_def sleep_def)

section \<open>Retrying\<close>

lemma four_throttling_responses:
  assumes "requestFn w = (Inl e0, w0)" "status e0 = Some 429"
    and "requestFn (sleep Backoff 5000 w0) = (Inl e1, w1)" "status e1 = Some 429"
    and "requestFn (sleep Backoff 10000 w1) = (Inl e2, w2)" "status e2 = Some 429"
    and "requestFn (sleep Backoff 20000 w2) = (Inl e3, w3)" "status e3 = Some 429"
  shows "makeRequestWithRetry requestFn 3 w = (Inl e3, w3)"
  using assms by (simp add: makeRequestWithRetry_def)

lemma always_throttled_log:
  assumes quiet: "\<forall>w. slept (snd (requestFn w)) = slept w"
    and busy: "\<forall>w. \<exists>e. fst (requestFn w) = Inl e \<and> status e = Some 429"
  shows "slept (snd (makeRequestWithRetry requestFn 3 w))
           = slept w @ [(Backoff, 5000), (Backoff, 10000), (Backoff, 20000)]
         \<and> (\<exists>e. fst (makeRequestWithRetry requestFn 3 w) = Inl e \<and> status e = Some 429)"
proof -
  define w0 where "w0 = snd (requestFn w)"
  define w1 where "w1 = snd (requestFn (sleep Backoff 5000 w0))"
  define w2 where "w2 = snd (requestFn (sleep Backoff 10000 w1))"
  define w3 where "w3 = snd (requestFn (sleep Backoff 20000 w2))"
  from busy obtain e0 where r0: "requestFn w = (Inl e0, w0)" "status e0 = Some 429"
    unfolding w0_def by (metis prod.collapse)
  from busy obtain e1 where
    r1: "requestFn (sleep Backoff 5000 w0) = (Inl e1, w1)" "status e1 = Some 429"
    unfolding w1_def by (metis prod.collapse)
  from busy obtain e2 where
    r2: "requestFn (sleep Backoff 10000 w1) = (Inl e2, w2)" "status e2 = Some 429"
    unfolding w2_def by (metis prod.collapse)
  from busy obtain e3 where
    r3: "requestFn (sleep Backoff 20000 w2) = (Inl e3, w3)" "status e3 = Some 429"
    unfolding w3_def by (metis prod.collapse)
  have run: "makeRequestWithRetry requestFn 3 w = (Inl e3, w3)"
    by (rule four_throttling_responses[OF r0 r1 r2 r3])
  have l0: "slept w0 = slept w" unfolding w0_def by (rule quiet[rule_format])
  have l1: "slept w1 = slept w @ [(Backoff, 5000)]"
    unfolding w1_def by (simp add: quiet[rule_format] l0)
  have l2: "slept w2 = slept w @ [(Backoff, 5000), (Backoff, 10000)]"
    unfolding w2_def by (simp add: quiet[rule_format] l1)
  have l3: "slept w3 = slept w @ [(Backoff, 5000), (Backoff, 10000), (Backoff, 20000)]"
    unfolding w3_def by (simp add: quiet[rule_format] l2)
  show ?thesis
    using run l3 r3(2) by simp
qed

text \<open>
  C5. With three retries: an error that is not a throttling response ends the loop at
  once, in the state the request left, at whatever attempt; a throttling response at an
  attempt \<open>k < 3\<close> is followed by a sleep of \<open>5000 * 2 ^ k\<close> ms and the next attempt; a
  throttling response at attempt 3 is raised; a value is returned as it is. So four
  throttling responses in a row, with sleeps of 5000, 10000 and 20000 ms between them,
  end in the fourth error; and when every response is a throttling response, and the
  request itself does not sleep, the waits of the whole operation are exactly 5000, 10000
  and 20000 ms, in this order, and its outcome is a throttling error.
\<close>

theorem C5_makeRequestWithRetry:
  "(requestFn w = (Inl e, w') \<and> status e \<noteq> Some 429
      \<longrightarrow> retry_from requestFn 3 k w = (Inl e, w'))
   \<and> (requestFn w = (Inl e, w') \<and> status e = Some 429 \<and> k < 3
      \<longrightarrow> retry_from requestFn 3 k w
            = retry_from requestFn 3 (k + 1) (sleep Backoff (5000 * 2 ^ k) w'))
   \<and> (requestFn w = (Inl e, w') \<and> status e = Some 429
      \<longrightarrow> retry_from requestFn 3 3 w = (Inl e, w'))
   \<and> (requestFn w = (Inr v, w') \<longrightarrow> retry_from requestFn 3 k w = (Inr v, w'))
   \<and> (requestFn w = (Inl e0, w0) \<and> status e0 = Some 429
       \<and> requestFn (sleep Backoff 5000 w0) = (Inl e1, w1) \<and> status e1 = Some 429
       \<and> requestFn (sleep Backoff 10000 w1) = (Inl e2, w2) \<and> status e2 = Some 429
       \<and> requestFn (sleep Backoff 20000 w2) = (Inl e3, w3) \<and> status e3 = Some 429
      \<longrightarrow> makeRequestWithRetry requestFn 3 w = (Inl e3, w3))
   \<and> ((\<forall>w. slept (snd (requestFn w)) = slept w)
       \<and> (\<forall>w. \<exists>e. fst (requestFn w) = Inl e \<and> status e = Some 429)
      \<longrightarrow> slept (snd (makeRequestWithRetry requestFn 3 w))
            = slept w @ [(Backoff, 5000), (Backoff, 10000), (Backoff, 20000)]
          \<and> (\<exists>e. fst (makeRequestWithRetry requestFn 3 w) = Inl e \<and> status e = Some 429))"
proof (intro conjI impI)
  assume "requestFn w = (Inl e, w') \<and> status e \<noteq> Some 429"
  then show "retry_from requestFn 3 k w = (Inl e, w')" by simp
next
  assume "requestFn w = (Inl e, w') \<and> status e = Some 429 \<and> k < 3"
  then show "retry_from requestFn 3 k w
            = retry_from requestFn 3 (k + 1) (sleep Backoff (5000 * 2 ^ k) w')"
    by (subst retry_from.simps) (simp del: retry_from.simps)
next
  assume "requestFn w = (Inl e, w') \<and> status e = Some 429"
  then show "retry_from requestFn 3 3 w = (Inl e, w')" by simp
next
  assume "requestFn w = (Inr v, w')"
  then show "retry_from requestFn 3 k w = (Inr v, w')" by simp
next
  assume "requestFn w = (Inl e0, w0) \<and> status e0 = Some 429
       \<and> requestFn (sleep Backoff 5000 w0) = (Inl e1, w1) \<and> status e1 = Some 429
       \<and> requestFn (sleep Backoff 10000 w1) = (Inl e2, w2) \<and> status e2 = Some 429
       \<and> requestFn (sleep Backoff 20000 w2) = (Inl e3, w3) \<and> status e3 = Some 429"
  then show "makeRequestWithRetry requestFn 3 w = (Inl e3, w3)"
    using four_throttling_responses by blast
next
  assume h: "(\<forall>w. slept (snd (requestFn w)) = slept w)
       \<and> (\<forall>w. \<exists>e. fst (requestFn w) = Inl e \<and> status e = Some 429)"
  then have log: "slept (snd (makeRequestWithRetry requestFn 3 w))
            = slept w @ [(Backoff, 5000), (Backoff, 10000), (Backoff, 20000)]
          \<and> (\<exists>e. fst (makeRequestWithRetry requestFn 3 w) = Inl e \<and> status e = Some 429)"
    using always_throttled_log by blast
  from log show "slept (snd (makeRequestWithRetry requestFn 3 w))
            = slept w @ [(Backoff, 5000), (Backoff, 10000), (Backoff, 20000)]"
    by simp
  from log show "\<exists>e. fst (makeRequestWithRetry requestFn 3 w) = Inl e \<and> status e = Some 429"
    by simp
qed

theorem C5_makeRequestWithRetry_witness:
  "fst (makeRequestWithRetry (client_get ''u'') 3 always_throttled) = Inl throttled
   \<and> slept (snd (makeRequestWithRetry (client_get ''u'') 3 always_throttled))
       = [(Backoff, 5000), (Backoff, 10000), (Backoff, 20000)]
   \<and> map fst (sent (snd (makeRequestWithRetry (client_get ''u'') 3 always_throttled)))
       = [1000000, 1005000, 1015000, 1035000]
   \<and> status throttled = Some 429"
  using C5_makeRequestWithRetry
    [of "client_get ''u''" always_throttled throttled
        "snd (client_get ''u'' always_throttled)" 0]
  by (simp add: makeRequestWithRetry_def client_get_def always_throttled_def fresh_world_def
      throttled_def sleep_def)

section \<open>The cache in front of the listing\<close>




section \<open>The relevance score\<close>

text \<open>
  C7 does not hold of the code. The keyword \<open>node.js\<close> does not occur in the title
  \<open>Learning node-js\<close>, in whatever case, and the post has no body; yet the update stores
  the relevance 10, one title match: the keyword is compiled as a pattern, in which the
  dot stands for any character.
\<close>

theorem C7_keyword_read_as_pattern:
  "(case PostModel_updateRelevanceScore 1 [''node.js''] node_post_db of
      Some (r, db') \<Rightarrow> r = Inr () \<and> map p_relevance_score (posts db') = [10]
    | None \<Rightarrow> False)
   \<and> occurrences (toLowerCase ''node.js'') (toLowerCase ''Learning node-js'') = 0"
  by (simp add: PostModel_updateRelevanceScore_def query_fault_def node_post_db_def seeded_db_def
      keyword_score_def new_RegExp_def compile_atom_def syntax_characters_def toLowerCase_def
      toLowerChar_def)

text \<open>
  The example of the description: a keyword twice in the title and once in the body, in
  varying case, scores 25.
\<close>

lemma relevance_twice_in_title_once_in_body:
  "keywords_score [''Cat''] ''A cat and a CAT'' (Some ''my cat'') 0 = Some 25"
  by (simp add: keyword_score_def new_RegExp_def compile_atom_def syntax_characters_def toLowerCase_def
      toLowerChar_def)

text \<open>
  For keywords without any character of the pattern syntax the code does compute the
  described score: a plain keyword compiles to the pattern of its own characters, whose
  matches are the occurrences of the keyword, and the update overwrites the stored
  relevance of the post with the sum.
\<close>

lemma toLowerChar_plain:
  assumes "c \<notin> set syntax_characters"
  shows "toLowerChar c \<notin> set syntax_characters"
proof (cases "map_of (zip ''ABCDEFGHIJKLMNOPQRSTUVWXYZ'' ''abcdefghijklmnopqrstuvwxyz'') c")
  case None
  then show ?thesis using assms by (simp add: toLowerChar_def)
next
  case (Some l)
  then have "(c, l) \<in> set (zip ''ABCDEFGHIJKLMNOPQRSTUVWXYZ'' ''abcdefghijklmnopqrstuvwxyz'')"
    by (rule map_of_SomeD)
  then have "l \<in> set ''abcdefghijklmnopqrstuvwxyz''"
    by (rule set_zip_rightD)
  then have "l \<notin> set syntax_characters"
    by (auto simp: syntax_characters_def)
  with Some show ?thesis by (simp add: toLowerChar_def)
qed

lemma toLowerCase_plain: "plain_keyword k \<Longrightarrow> plain_keyword (toLowerCase k)"
  by (auto simp: plain_keyword_def toLowerCase_def toLowerChar_plain)

lemma new_RegExp_plain: "plain_keyword k \<Longrightarrow> new_RegExp k = Some (map Lit k)"
proof (induction k)
  case Nil
  then show ?case by (simp add: new_RegExp_def)
next
  case (Cons c k)
  then have "c \<notin> set syntax_characters" "plain_keyword k"
    by (simp_all add: plain_keyword_def)
  moreover from this have "c \<noteq> CHR ''.''"
    by (auto simp: syntax_characters_def)
  ultimately show ?case
    using Cons.IH by (simp add: new_RegExp_def compile_atom_def)
qed

lemma matches_here_literal: "matches_here (map Lit k) s = prefix k s"
proof (induction k arbitrary: s)
  case Nil
  then show ?case by simp
next
  case (Cons c k)
  then show ?case by (cases s) auto
qed

lemma match_count_literal: "match_count (map Lit k) s = occurrences k s"
  by (induction k s rule: occurrences.induct) (simp_all add: matches_here_literal)

lemma keyword_score_plain:
  assumes "plain_keyword k"
  shows "keyword_score k t c =
           Some (occurrences (toLowerCase k) (toLowerCase t) * 10
                 + occurrences (toLowerCase k)
                     (toLowerCase (case c of Some b \<Rightarrow> b | None \<Rightarrow> [])) * 5)"
  using new_RegExp_plain[OF toLowerCase_plain[OF assms]]
  by (simp add: keyword_score_def match_count_literal)

lemma keywords_score_plain:
  "\<forall>k \<in> set ks. plain_keyword k \<Longrightarrow>
   keywords_score ks t c n = Some (n + described_score ks t c)"
  by (induction ks arbitrary: n) (simp_all add: keyword_score_plain described_score_def)

lemma updateRelevanceScore_plain:
  assumes "\<forall>k \<in> set ks. plain_keyword k"
    and "faults db = []"
    and "post \<in> set (posts db)" and "p_id post = postId"
    and "distinct (map p_id (posts db))"
  shows "PostModel_updateRelevanceScore postId ks db =
           Some (Inr (),
                 db\<lparr>posts :=
                      map (\<lambda>p. if p_id p = postId
                                then p\<lparr>p_relevance_score :=
                                         int (described_score ks (p_title post) (p_content post))\<rparr>
                                else p)
                        (posts db)\<rparr>)"
proof -
  have q: "query_fault db = (None, db)" using assms(2) by (simp add: query_fault_def)
  have flt: "filter (\<lambda>r. p_id r = postId) (posts db) = [post]"
    using filter_key_unique[OF assms(5,3)] assms(4) by simp
  show ?thesis
    by (simp add: PostModel_updateRelevanceScore_def q flt keywords_score_plain[OF assms(1)])
qed

section \<open>The order and the pages of the search\<close>



section \<open>The reputation of a known author\<close>

text \<open>
  C9. When \<^verbatim>\<open>findOrCreate\<close> succeeds for a handle that is already stored, the rows of that
  handle carry the supplied link and comment karma afterwards, whatever they carried
  before; all else in the table is as before. \<^verbatim>\<open>storePost\<close> supplies zero for both: after
  it has stored a post of a known author, the stored karma of that author is zero.
\<close>

theorem C9_reputation_overwritten:
  "(AuthorModel_findOrCreate username linkKarma commentKarma db = (Inr i, db')
      \<and> a \<in> set (authors db) \<and> au_username a = username
     \<longrightarrow> authors db' =
           map (\<lambda>x. if au_username x = username
                     then x\<lparr>au_link_karma := linkKarma, au_comment_karma := commentKarma\<rparr>
                     else x) (authors db))
   \<and> (storePost redditPost subredditId db = (Inr u, db'')
      \<and> a \<in> set (authors db) \<and> au_username a = rp_author redditPost
     \<longrightarrow> authors db'' =
           map (\<lambda>x. if au_username x = rp_author redditPost
                     then x\<lparr>au_link_karma := 0, au_comment_karma := 0\<rparr>
                     else x) (authors db)
         \<and> a\<lparr>au_link_karma := 0, au_comment_karma := 0\<rparr> \<in> set (authors db''))"
proof (intro conjI impI)
  assume "AuthorModel_findOrCreate username linkKarma commentKarma db = (Inr i, db')
      \<and> a \<in> set (authors db) \<and> au_username a = username"
  then show "authors db' =
           map (\<lambda>x. if au_username x = username
                     then x\<lparr>au_link_karma := linkKarma, au_comment_karma := commentKarma\<rparr>
                     else x) (authors db)"
    using AuthorModel_findOrCreate_known by blast
next
  assume h: "storePost redditPost subredditId db = (Inr u, db'')
      \<and> a \<in> set (authors db) \<and> au_username a = rp_author redditPost"
  then have eq: "authors db'' =
           map (\<lambda>x. if au_username x = rp_author redditPost
                     then x\<lparr>au_link_karma := 0, au_comment_karma := 0\<rparr>
                     else x) (authors db)"
    using storePost_known_author by blast
  show "authors db'' =
           map (\<lambda>x. if au_username x = rp_author redditPost
                     then x\<lparr>au_link_karma := 0, au_comment_karma := 0\<rparr>
                     else x) (authors db)"
    by (rule eq)
  show "a\<lparr>au_link_karma := 0, au_comment_karma := 0\<rparr> \<in> set (authors db'')"
    using h unfolding eq by force
qed

theorem C9_reputation_overwritten_witness:
  "fst (storePost sample_post 1 seeded_db) = Inr ()
   \<and> authors seeded_db
       = [\<lparr>au_id = 1, au_username = ''alice'', au_link_karma = 120, au_comment_karma = 45\<rparr>]
   \<and> authors (snd (storePost sample_post 1 seeded_db))
       = [\<lparr>au_id = 1, au_username = ''alice'', au_link_karma = 0, au_comment_karma = 0\<rparr>]
   \<and> authors (snd (AuthorModel_findOrCreate ''alice'' 7 9 seeded_db))
       = [\<lparr>au_id = 1, au_username = ''alice'', au_link_karma = 7, au_comment_karma = 9\<rparr>]"
proof -
  have store: "fst (storePost sample_post 1 seeded_db) = Inr ()"
    by (simp add: storePost_def AuthorModel_findOrCreate_def PostModel_create_def
        query_fault_def seeded_db_def sample_post_def string_or_null_def number_or_null_def)
  have find: "fst (AuthorModel_findOrCreate ''alice'' 7 9 seeded_db) = Inr 1"
    by (simp add: AuthorModel_findOrCreate_def query_fault_def seeded_db_def)
  have known: "authors seeded_db
       = [\<lparr>au_id = 1, au_username = ''alice'', au_link_karma = 120, au_comment_karma = 45\<rparr>]"
    by (simp add: seeded_db_def)
  have author: "rp_author sample_post = ''alice''"
    by (simp add: sample_post_def)
  show ?thesis
    using C9_reputation_overwritten
      [of "''alice''" 7 9 seeded_db 1 "snd (AuthorModel_findOrCreate ''alice'' 7 9 seeded_db)"
          "\<lparr>au_id = 1, au_username = ''alice'', au_link_karma = 120, au_comment_karma = 45\<rparr>"
          sample_post 1 "()" "snd (storePost sample_post 1 seeded_db)"]
      store find known author
    by (simp add: prod_eq_iff)
qed

section \<open>Properties of the comment traversal\<close>

lemma extract_is_preorder:
  "extractComments ts acc = acc @ concat (map preorder ts)"
  "extractChild t acc = acc @ preorder t"
proof (induction ts acc and t acc rule: extractComments_extractChild.induct)
  case (3 k d r comments)
  then show ?case by (cases r) auto
qed auto

text \<open>
  C10. For every reply tree, the flattening appends to the comments gathered so far the
  pruned depth-first preorder of the tree: a node that is not of kind \<open>t1\<close> is skipped with
  everything below it, so the result is the same as if the node were not there; a comment
  node is followed first by the flattening of its own replies and then by that of its
  later siblings.
\<close>

theorem C10_extractComments_preorder:
  "extractComments ts acc = acc @ concat (map preorder ts)
   \<and> (k \<noteq> ''t1'' \<longrightarrow> extractComments (Thing k d r # rest) acc = extractComments rest acc)
   \<and> extractComments (Thing ''t1'' d (Some children) # rest) acc
       = acc @ [d] @ extractComments children [] @ extractComments rest []"
proof (intro conjI impI)
  show "extractComments ts acc = acc @ concat (map preorder ts)"
    by (rule extract_is_preorder)
next
  assume "k \<noteq> ''t1''"
  then show "extractComments (Thing k d r # rest) acc = extractComments rest acc"
    by simp
next
  show "extractComments (Thing ''t1'' d (Some children) # rest) acc
          = acc @ [d] @ extractComments children [] @ extractComments rest []"
    by (simp add: extract_is_preorder)
qed

theorem C10_extractComments_preorder_witness:
  "extractComments
     [Thing ''t1'' \<lparr>rc_id = ''a'', rc_body = ''x'', rc_author = ''u'', rc_score = 1,
                    rc_created_utc = 0, rc_link_id = ''l''\<rparr>
        (Some [Thing ''more'' \<lparr>rc_id = ''m'', rc_body = ''x'', rc_author = ''u'', rc_score = 1,
                              rc_created_utc = 0, rc_link_id = ''l''\<rparr>
                 (Some [Thing ''t1'' \<lparr>rc_id = ''hidden'', rc_body = ''x'', rc_author = ''u'',
                                     rc_score = 1, rc_created_utc = 0, rc_link_id = ''l''\<rparr> None]),
               Thing ''t1'' \<lparr>rc_id = ''b'', rc_body = ''x'', rc_author = ''u'', rc_score = 1,
                            rc_created_utc = 0, rc_link_id = ''l''\<rparr> None]),
      Thing ''t1'' \<lparr>rc_id = ''c'', rc_body = ''x'', rc_author = ''u'', rc_score = 1,
                    rc_created_utc = 0, rc_link_id = ''l''\<rparr> None] []
   = [\<lparr>rc_id = ''a'', rc_body = ''x'', rc_author = ''u'', rc_score = 1,
       rc_created_utc = 0, rc_link_id = ''l''\<rparr>,
      \<lparr>rc_id = ''b'', rc_body = ''x'', rc_author = ''u'', rc_score = 1,
       rc_created_utc = 0, rc_link_id = ''l''\<rparr>,
      \<lparr>rc_id = ''c'', rc_body = ''x'', rc_author = ''u'', rc_score = 1,
       rc_created_utc = 0, rc_link_id = ''l''\<rparr>]
   \<and> ''more'' \<noteq> ''t1''"
  using C10_extractComments_preorder
    [of "[Thing ''t1'' \<lparr>rc_id = ''b'', rc_body = ''x'', rc_author = ''u'', rc_score = 1,
                         rc_created_utc = 0, rc_link_id = ''l''\<rparr> None]"
        "[\<lparr>rc_id = ''a'', rc_body = ''x'', rc_author = ''u'', rc_score = 1,
           rc_created_utc = 0, rc_link_id = ''l''\<rparr>]"
        "''more''"
        "\<lparr>rc_id = ''m'', rc_body = ''x'', rc_author = ''u'', rc_score = 1,
          rc_created_utc = 0, rc_link_id = ''l''\<rparr>"
        "Some [Thing ''t1'' \<lparr>rc_id = ''hidden'', rc_body = ''x'', rc_author = ''u'',
                              rc_score = 1, rc_created_utc = 0, rc_link_id = ''l''\<rparr> None]"]
  by simp

end
